theory Spec2Isabelle
  imports Main
begin

section \<open>The inference pipeline of native-lib.cpp\<close>

text \<open>
  The theory embeds \<^verbatim>\<open>runModel\<close> of \<^verbatim>\<open>app/src/main/cpp/native-lib.cpp\<close>.
  A \<^verbatim>\<open>std::string\<close> is a \<^typ>\<open>string\<close> (a list of bytes).  The C++ \<^verbatim>\<open>int\<close> and
  \<^verbatim>\<open>long\<close> variables are \<^typ>\<open>int\<close>, without wrap-around: the largest values the
  function computes are \<open>n_prompt + 32\<close> and 1000 times a token count, which stay in
  range for any prompt of less than two million tokens.  The llama engine and the clock
  are not part of the repository; every answer they give to the function is a field of
  the record \<open>engine\<close>, and the general theorems hold for all engines.
\<close>

subsection \<open>Chat templates (lines 62-84)\<close>

definition format_prompt :: "string \<Rightarrow> int \<Rightarrow> string" where
  "format_prompt prompt template_type =
     (if template_type = 1 then
        ''<start_of_turn>user\<newline>'' @ prompt @ ''<end_of_turn>\<newline><start_of_turn>model\<newline>''
      else if template_type = 2 then
        ''<|begin_of_text|><|start_header_id|>user<|end_header_id|>\<newline>\<newline>'' @ prompt @
        ''<|eot_id|><|start_header_id|>assistant<|end_header_id|>\<newline>\<newline>''
      else if template_type = 3 then
        ''<|user|>\<newline>'' @ prompt @ ''<|end|>\<newline><|assistant|>\<newline>''
      else
        ''<|im_start|>user\<newline>'' @ prompt @ ''<|im_end|>\<newline><|im_start|>assistant\<newline>'')"

subsection \<open>The engine as seen by runModel\<close>

text \<open>
  One decode-loop iteration asks the engine for a token (\<^verbatim>\<open>llama_sampler_sample\<close>),
  whether it ends the generation (\<^verbatim>\<open>llama_vocab_is_eog\<close>), its text
  (\<^verbatim>\<open>llama_token_to_piece\<close>: the returned length and the bytes left in \<^verbatim>\<open>buf\<close>) and
  a forward pass over it (\<^verbatim>\<open>llama_decode\<close>).
\<close>

record step_result =
  tok_eog :: bool
  piece_n :: int
  piece_buf :: string
  decode_rc :: int

text \<open>
  The answers of the engine and of the clock during one call: whether
  \<^verbatim>\<open>llama_model_load_from_file\<close> and \<^verbatim>\<open>llama_init_from_model\<close> return a handle, the
  count returned by \<^verbatim>\<open>llama_tokenize\<close>, the return code of the prefill
  \<^verbatim>\<open>llama_decode\<close>, the answers in iteration \<open>i\<close> of the loop, and the three measured
  durations in milliseconds (\<open>t_first_ms eng i\<close> is \<^verbatim>\<open>t_first - t_start\<close> as read in
  iteration \<open>i\<close>).
\<close>

record engine =
  model_load_from_file :: "string \<Rightarrow> bool"
  init_from_model :: bool
  tokenize :: "string \<Rightarrow> int"
  prefill_decode_rc :: int
  steps :: "nat \<Rightarrow> step_result"
  prefill_ms :: int
  t_first_ms :: "nat \<Rightarrow> int"
  gen_ms :: int

subsection \<open>Integer division and std::to_string\<close>

text \<open>
  C++ integer division truncates towards zero and is undefined for a zero divisor; the
  model returns the fault as a value.
\<close>

datatype fault = DivideByZero

definition c_div :: "int \<Rightarrow> int \<Rightarrow> fault + int" where
  "c_div a b = (if b = 0 then Inl DivideByZero else Inr (sgn a * sgn b * (\<bar>a\<bar> div \<bar>b\<bar>)))"

fun digits :: "nat \<Rightarrow> string" where
  "digits n = (if n < 10 then [''0123456789'' ! n]
               else digits (n div 10) @ [''0123456789'' ! (n mod 10)])"

declare digits.simps [simp del]

definition to_string :: "int \<Rightarrow> string" where
  "to_string v = (if v < 0 then CHR ''-'' # digits (nat (- v)) else digits (nat v))"

subsection \<open>Metrics (lines 170-172 and 237-239)\<close>

definition itps_of :: "int \<Rightarrow> int \<Rightarrow> fault + int" where
  "itps_of n_prompt prefill = (if 0 < prefill then c_div (n_prompt * 1000) prefill else Inr (- 1))"

definition otps_of :: "int \<Rightarrow> int \<Rightarrow> fault + int" where
  "otps_of generated gen = (if 0 < gen then c_div (generated * 1000) gen else Inr (- 1))"

subsection \<open>The generation loop (lines 178-229)\<close>

definition max_tokens :: int where
  "max_tokens = 32"

definition n_predict :: int where
  "n_predict = max_tokens"

record gen_state =
  n_pos :: int
  batch_n_tokens :: int
  generated_tokens :: int
  output_str :: string
  first_token_seen :: bool
  ttft_ms :: int

text \<open>
  The state when the loop is entered: the batch is still the prefill batch of
  \<open>n_prompt\<close> tokens, and \<open>n_pos\<close> is 0.
\<close>

definition init_gen :: "int \<Rightarrow> gen_state" where
  "init_gen n_prompt =
     \<lparr>n_pos = 0, batch_n_tokens = n_prompt, generated_tokens = 0, output_str = [],
      first_token_seen = False, ttft_ms = - 1\<rparr>"

datatype 'a flow = Break 'a | Continue 'a

text \<open>The body of the while loop, lines 188-228, in iteration \<open>i\<close>.\<close>

definition loop_body :: "engine \<Rightarrow> nat \<Rightarrow> gen_state \<Rightarrow> gen_state flow" where
  "loop_body eng i s =
     (let r = steps eng i in
      if tok_eog r then Break s
      else
        let s1 = (if \<not> first_token_seen s
                  then s\<lparr>ttft_ms := t_first_ms eng i, first_token_seen := True\<rparr> else s);
            n = piece_n r;
            s2 = (if 0 < n then s1\<lparr>output_str := output_str s1 @ take (nat n) (piece_buf r)\<rparr> else s1)
        in if 0 < n \<and> CHR ''\<newline>'' \<in> set (output_str s2) then Break s2
           else
             let s3 = s2\<lparr>generated_tokens := generated_tokens s2 + 1\<rparr>;
                 s4 = s3\<lparr>batch_n_tokens := 1\<rparr>
             in if decode_rc r \<noteq> 0 then Break s4
                else Continue (s4\<lparr>n_pos := n_pos s4 + batch_n_tokens s4\<rparr>))"

text \<open>
  The while loop of line 186.  The number \<open>i\<close> counts the iterations entered so far and
  selects the engine's answers; the result pairs the number of iterations entered in all
  with the final state.
\<close>

function gen_loop :: "engine \<Rightarrow> int \<Rightarrow> nat \<Rightarrow> gen_state \<Rightarrow> nat \<times> gen_state" where
  "gen_loop eng n_prompt i s =
     (if n_pos s + batch_n_tokens s < n_prompt + n_predict then
        (case loop_body eng i s of
           Break s' \<Rightarrow> (Suc i, s')
         | Continue s' \<Rightarrow> gen_loop eng n_prompt (Suc i) s')
      else (i, s))"
  by pat_completeness auto

termination
proof (relation "measure (\<lambda>(eng, n_prompt, i, s).
         if n_pos s + batch_n_tokens s < n_prompt + n_predict
         then Suc (nat (n_prompt + n_predict - 1 - n_pos s)) else 0)")
  show "wf (measure (\<lambda>(eng, n_prompt, i, s).
         if n_pos s + batch_n_tokens s < n_prompt + n_predict
         then Suc (nat (n_prompt + n_predict - 1 - n_pos s)) else 0))"
    by simp
next
  fix eng :: engine and n_prompt :: int and i :: nat and s s' :: gen_state
  assume guard: "n_pos s + batch_n_tokens s < n_prompt + n_predict"
    and body: "loop_body eng i s = Continue s'"
  from body have "n_pos s' = n_pos s + 1" and "batch_n_tokens s' = 1"
    by (auto simp: loop_body_def Let_def split: if_splits)
  with guard
  show "((eng, n_prompt, Suc i, s'), (eng, n_prompt, i, s)) \<in> measure (\<lambda>(eng, n_prompt, i, s).
         if n_pos s + batch_n_tokens s < n_prompt + n_predict
         then Suc (nat (n_prompt + n_predict - 1 - n_pos s)) else 0)"
    by simp
qed

declare gen_loop.simps [simp del]

subsection \<open>runModel (lines 42-268)\<close>

text \<open>
  The handles the function obtains from the engine.  The prompt batch of
  \<^verbatim>\<open>llama_batch_init\<close> is one of them: its \<^verbatim>\<open>llama_batch_free\<close> is commented out at
  line 253.  A handle is live from the call that returns it to the call that frees it.
\<close>

datatype resource = Model | Context | PromptBatch | Sampler

text \<open>What a call leaves behind: the returned string and the handles still live.\<close>

record run_result =
  ret :: string
  live :: "resource list"

text \<open>The string assembled at lines 260-265.\<close>

definition result_string :: "int \<Rightarrow> int \<Rightarrow> int \<Rightarrow> int \<Rightarrow> string \<Rightarrow> string" where
  "result_string ttft itps otps oet out =
     ''TTFT_MS='' @ to_string ttft @ '';ITPS='' @ to_string itps @
     '';OTPS='' @ to_string otps @ '';OET_MS='' @ to_string oet @ ''|'' @ out"

definition runModel :: "engine \<Rightarrow> string \<Rightarrow> string \<Rightarrow> int \<Rightarrow> fault + run_result" where
  "runModel eng prompt model_path template_type =
     (let formatted_prompt = format_prompt prompt template_type in
      if \<not> model_load_from_file eng model_path then Inr \<lparr>ret = [], live = []\<rparr>
      else
        let live1 = [Model] in
        if \<not> init_from_model eng then Inr \<lparr>ret = [], live = live1\<rparr>
        else
          let live2 = Context # live1;
              n_prompt = tokenize eng formatted_prompt
          in if n_prompt \<le> 0 then Inr \<lparr>ret = [], live = live2\<rparr>
             else
               let live3 = PromptBatch # live2 in
               if prefill_decode_rc eng \<noteq> 0 then Inr \<lparr>ret = [], live = live3\<rparr>
               else
                 (case itps_of n_prompt (prefill_ms eng) of
                    Inl f \<Rightarrow> Inl f
                  | Inr itps \<Rightarrow>
                      (let live4 = Sampler # live3;
                           s = snd (gen_loop eng n_prompt 0 (init_gen n_prompt))
                       in (case otps_of (generated_tokens s) (gen_ms eng) of
                             Inl f \<Rightarrow> Inl f
                           | Inr otps \<Rightarrow>
                               (let oet_ms = gen_ms eng;
                                    live5 = remove1 Model (remove1 Context (remove1 Sampler live4))
                                in Inr \<lparr>ret = result_string (ttft_ms s) itps otps oet_ms (output_str s),
                                        live = live5\<rparr>)))))"

subsection \<open>Describing a run\<close>

text \<open>
  The vocabulary of the statements below.  \<open>n_prompt_of\<close> is the count that line 119
  receives.  A call reaches the generation loop when none of the four early returns of
  lines 95, 109, 132 and 158 is taken.
\<close>

definition n_prompt_of :: "engine \<Rightarrow> string \<Rightarrow> int \<Rightarrow> int" where
  "n_prompt_of eng prompt template_type = tokenize eng (format_prompt prompt template_type)"

definition reaches_generation :: "engine \<Rightarrow> string \<Rightarrow> string \<Rightarrow> int \<Rightarrow> bool" where
  "reaches_generation eng prompt model_path template_type \<longleftrightarrow>
     model_load_from_file eng model_path \<and> init_from_model eng \<and>
     0 < n_prompt_of eng prompt template_type \<and> prefill_decode_rc eng = 0"

text \<open>
  The text that an iteration appends for an answer of the engine, and the answers after
  which an iteration started on newline-free text reaches the end of the loop body.
\<close>

definition piece_text :: "step_result \<Rightarrow> string" where
  "piece_text r = (if 0 < piece_n r then take (nat (piece_n r)) (piece_buf r) else [])"

definition step_continues :: "step_result \<Rightarrow> bool" where
  "step_continues r \<longleftrightarrow>
     \<not> tok_eog r \<and> CHR ''\<newline>'' \<notin> set (piece_text r) \<and> decode_rc r = 0"

definition pieces_upto :: "engine \<Rightarrow> nat \<Rightarrow> string" where
  "pieces_upto eng k = concat (map (\<lambda>j. piece_text (steps eng j)) [0..<k])"

text \<open>The loop state after \<open>k\<close> iterations that all ran to the end of the body.\<close>

definition state_after :: "engine \<Rightarrow> int \<Rightarrow> nat \<Rightarrow> gen_state" where
  "state_after eng n_prompt k =
     \<lparr>n_pos = int k, batch_n_tokens = (if k = 0 then n_prompt else 1),
      generated_tokens = int k, output_str = pieces_upto eng k,
      first_token_seen = (0 < k), ttft_ms = (if 0 < k then t_first_ms eng 0 else - 1)\<rparr>"

text \<open>
  What the guarded divisions of lines 170-172 and 237-239 leave in \<^verbatim>\<open>itps\<close> and
  \<^verbatim>\<open>otps\<close> for a count that is not negative.
\<close>

definition tokens_per_sec :: "int \<Rightarrow> int \<Rightarrow> int" where
  "tokens_per_sec n ms = (if 0 < ms then n * 1000 div ms else - 1)"

subsection \<open>Sample engines\<close>

text \<open>
  Engines for concrete runs: a token with a text whose forward pass succeeds, an
  end-of-generation token, a token without renderable text, a script of answers followed
  by end-of-generation tokens, and an engine that loads, tokenizes the prompt to
  \<open>n\<close> tokens, prefills in 5 ms and generates for 3 ms.
\<close>

definition token_step :: "string \<Rightarrow> step_result" where
  "token_step txt = \<lparr>tok_eog = False, piece_n = int (length txt), piece_buf = txt, decode_rc = 0\<rparr>"

definition eog_step :: step_result where
  "eog_step = \<lparr>tok_eog = True, piece_n = 0, piece_buf = [], decode_rc = 0\<rparr>"

definition silent_step :: step_result where
  "silent_step = \<lparr>tok_eog = False, piece_n = 0, piece_buf = [], decode_rc = 0\<rparr>"

definition scripted :: "step_result list \<Rightarrow> nat \<Rightarrow> step_result" where
  "scripted rs i = (if i < length rs then rs ! i else eog_step)"

definition demo_engine :: "int \<Rightarrow> (nat \<Rightarrow> step_result) \<Rightarrow> engine" where
  "demo_engine n st =
     \<lparr>model_load_from_file = (\<lambda>_. True), init_from_model = True, tokenize = (\<lambda>_. n),
      prefill_decode_rc = 0, steps = st, prefill_ms = 5, t_first_ms = (\<lambda>i. 7 + int i),
      gen_ms = 3\<rparr>"

definition chatty_engine :: engine where
  "chatty_engine = demo_engine 12 (\<lambda>_. token_step ''a'')"

definition peanut_engine :: engine where
  "peanut_engine = demo_engine 12 (scripted
     [token_step ''peanut'', token_step '', milk'', token_step '', wheat'',
      token_step ''\<newline>'', token_step ''soy''])"

definition failing_engine :: engine where
  "failing_engine = demo_engine 12 (scripted
     [token_step ''peanut'', token_step '', milk'', (token_step '', wheat'')\<lparr>decode_rc := 1\<rparr>])"

definition eog_engine :: engine where
  "eog_engine = demo_engine 12 (scripted [])"

definition silent_engine :: engine where
  "silent_engine = demo_engine 12 (scripted [silent_step])"

text \<open>The engine \<open>eog_engine\<close> with one of the four fatal failures.\<close>

definition no_model_engine :: engine where
  "no_model_engine = eog_engine\<lparr>model_load_from_file := (\<lambda>_. False)\<rparr>"

definition no_context_engine :: engine where
  "no_context_engine = eog_engine\<lparr>init_from_model := False\<rparr>"

definition no_tokens_engine :: engine where
  "no_tokens_engine = eog_engine\<lparr>tokenize := (\<lambda>_. 0)\<rparr>"

definition no_prefill_engine :: engine where
  "no_prefill_engine = eog_engine\<lparr>prefill_decode_rc := 1\<rparr>"

section \<open>Lemmas\<close>

subsection \<open>Arithmetic and strings\<close>

lemma c_div_nonneg: "0 \<le> a \<Longrightarrow> 0 < b \<Longrightarrow> c_div a b = Inr (a div b)"
  by (cases "a = 0") (simp_all add: c_div_def)

lemma itps_of_tokens_per_sec: "0 \<le> n \<Longrightarrow> itps_of n ms = Inr (tokens_per_sec n ms)"
  by (simp add: itps_of_def tokens_per_sec_def c_div_nonneg)

lemma otps_of_tokens_per_sec: "0 \<le> n \<Longrightarrow> otps_of n ms = Inr (tokens_per_sec n ms)"
  by (simp add: otps_of_def tokens_per_sec_def c_div_nonneg)

lemma tokens_per_sec_nonneg: "0 \<le> n \<Longrightarrow> 0 < ms \<Longrightarrow> 0 \<le> tokens_per_sec n ms"
  by (simp add: tokens_per_sec_def pos_imp_zdiv_nonneg_iff)

lemma digit_no_minus: "d < 10 \<Longrightarrow> ''0123456789'' ! d \<noteq> CHR ''-''"
proof -
  assume "d < 10"
  then have "d \<in> {0, 1, 2, 3, 4, 5, 6, 7, 8, 9}" by auto
  then show ?thesis by auto
qed

lemma digits_no_minus: "CHR ''-'' \<notin> set (digits m)"
proof (induction m rule: digits.induct)
  case (1 n)
  show ?case
  proof (cases "n < 10")
    case True
    with digit_no_minus [of n] show ?thesis
      by (subst digits.simps) auto
  next
    case False
    have "n mod 10 < 10" by simp
    from digit_no_minus [OF this] False "1.IH" show ?thesis
      by (subst digits.simps) auto
  qed
qed

lemma to_string_nonneg_no_sentinel: "0 \<le> v \<Longrightarrow> to_string v \<noteq> ''-1''"
proof
  assume "0 \<le> v" and eq: "to_string v = ''-1''"
  then have "digits (nat v) = ''-1''" by (simp add: to_string_def)
  then have "CHR ''-'' \<in> set (digits (nat v))" by simp
  then show False by (simp add: digits_no_minus)
qed

subsection \<open>One iteration\<close>

lemma loop_body_Continue:
  "loop_body eng i s = Continue s' \<Longrightarrow> n_pos s' = n_pos s + 1 \<and> batch_n_tokens s' = 1"
  by (auto simp: loop_body_def Let_def split: if_splits)

lemma loop_body_generated:
  "loop_body eng i s = Continue s' \<Longrightarrow> generated_tokens s' = generated_tokens s + 1"
  "loop_body eng i s = Break s' \<Longrightarrow>
     generated_tokens s' = generated_tokens s \<or> generated_tokens s' = generated_tokens s + 1"
  by (auto simp: loop_body_def Let_def split: if_splits)

lemma loop_body_seen:
  "first_token_seen s \<Longrightarrow> loop_body eng i s = Continue s' \<Longrightarrow>
     first_token_seen s' \<and> ttft_ms s' = ttft_ms s"
  "first_token_seen s \<Longrightarrow> loop_body eng i s = Break s' \<Longrightarrow> ttft_ms s' = ttft_ms s"
  by (auto simp: loop_body_def Let_def split: if_splits)

lemma loop_body_first:
  "\<not> tok_eog (steps eng i) \<Longrightarrow> \<not> first_token_seen s \<Longrightarrow> loop_body eng i s = Continue s' \<Longrightarrow>
     first_token_seen s' \<and> ttft_ms s' = t_first_ms eng i"
  "\<not> tok_eog (steps eng i) \<Longrightarrow> \<not> first_token_seen s \<Longrightarrow> loop_body eng i s = Break s' \<Longrightarrow>
     ttft_ms s' = t_first_ms eng i"
  by (auto simp: loop_body_def Let_def split: if_splits)

subsection \<open>The loop from an arbitrary state\<close>

lemma gen_loop_unfold_exit:
  "\<not> n_pos s + batch_n_tokens s < n_prompt + n_predict \<Longrightarrow> gen_loop eng n_prompt i s = (i, s)"
  by (subst gen_loop.simps) simp

lemma gen_loop_unfold_Break:
  "n_pos s + batch_n_tokens s < n_prompt + n_predict \<Longrightarrow> loop_body eng i s = Break s' \<Longrightarrow>
     gen_loop eng n_prompt i s = (Suc i, s')"
  by (subst gen_loop.simps) simp

lemma gen_loop_unfold_Continue:
  "n_pos s + batch_n_tokens s < n_prompt + n_predict \<Longrightarrow> loop_body eng i s = Continue s' \<Longrightarrow>
     gen_loop eng n_prompt i s = gen_loop eng n_prompt (Suc i) s'"
  by (subst gen_loop.simps) simp

lemma gen_loop_iterations:
  "fst (gen_loop eng n_prompt i s) \<le>
     i + (if n_pos s + batch_n_tokens s < n_prompt + n_predict
          then Suc (nat (n_prompt + n_predict - 2 - n_pos s)) else 0)"
proof (induction eng n_prompt i s rule: gen_loop.induct)
  case (1 eng n_prompt i s)
  show ?case
  proof (cases "n_pos s + batch_n_tokens s < n_prompt + n_predict")
    case False
    then show ?thesis by (simp add: gen_loop_unfold_exit)
  next
    case guard: True
    show ?thesis
    proof (cases "loop_body eng i s")
      case (Break s')
      with guard show ?thesis by (simp add: gen_loop_unfold_Break)
    next
      case (Continue s')
      from loop_body_Continue [OF Continue]
      have step: "n_pos s' = n_pos s + 1" "batch_n_tokens s' = 1" by simp_all
      have "fst (gen_loop eng n_prompt i s) = fst (gen_loop eng n_prompt (Suc i) s')"
        using guard Continue by (simp add: gen_loop_unfold_Continue)
      also have "\<dots> \<le> Suc i + (if n_pos s' + batch_n_tokens s' < n_prompt + n_predict
          then Suc (nat (n_prompt + n_predict - 2 - n_pos s')) else 0)"
        using "1.IH" [OF guard Continue] .
      also have "\<dots> \<le> i + Suc (nat (n_prompt + n_predict - 2 - n_pos s))"
        using step by (auto simp: nat_diff_distrib)
      finally show ?thesis using guard by simp
    qed
  qed
qed

lemma gen_loop_generated_mono:
  "generated_tokens s \<le> generated_tokens (snd (gen_loop eng n_prompt i s))"
proof (induction eng n_prompt i s rule: gen_loop.induct)
  case (1 eng n_prompt i s)
  show ?case
  proof (cases "n_pos s + batch_n_tokens s < n_prompt + n_predict")
    case False
    then show ?thesis by (simp add: gen_loop_unfold_exit)
  next
    case guard: True
    show ?thesis
    proof (cases "loop_body eng i s")
      case (Break s')
      with guard loop_body_generated(2) [OF Break] show ?thesis
        by (auto simp: gen_loop_unfold_Break)
    next
      case (Continue s')
      with guard loop_body_generated(1) [OF Continue] "1.IH" [OF guard Continue] show ?thesis
        by (simp add: gen_loop_unfold_Continue)
    qed
  qed
qed

lemma gen_loop_ttft_kept:
  "first_token_seen s \<Longrightarrow> ttft_ms (snd (gen_loop eng n_prompt i s)) = ttft_ms s"
proof (induction eng n_prompt i s rule: gen_loop.induct)
  case (1 eng n_prompt i s)
  show ?case
  proof (cases "n_pos s + batch_n_tokens s < n_prompt + n_predict")
    case False
    then show ?thesis by (simp add: gen_loop_unfold_exit)
  next
    case guard: True
    show ?thesis
    proof (cases "loop_body eng i s")
      case (Break s')
      with guard loop_body_seen(2) [OF "1.prems" Break] show ?thesis
        by (simp add: gen_loop_unfold_Break)
    next
      case (Continue s')
      with guard loop_body_seen(1) [OF "1.prems" Continue] "1.IH" [OF guard Continue] show ?thesis
        by (simp add: gen_loop_unfold_Continue)
    qed
  qed
qed

lemma gen_loop_ttft_first:
  "ttft_ms (snd (gen_loop eng n_prompt 0 (init_gen n_prompt))) =
     (if tok_eog (steps eng 0) then - 1 else t_first_ms eng 0)"
proof -
  have guard: "n_pos (init_gen n_prompt) + batch_n_tokens (init_gen n_prompt) < n_prompt + n_predict"
    by (simp add: init_gen_def n_predict_def max_tokens_def)
  have unseen: "\<not> first_token_seen (init_gen n_prompt)"
    by (simp add: init_gen_def)
  show ?thesis
  proof (cases "tok_eog (steps eng 0)")
    case True
    then have "loop_body eng 0 (init_gen n_prompt) = Break (init_gen n_prompt)"
      by (simp add: loop_body_def)
    with guard True show ?thesis
      by (simp add: gen_loop_unfold_Break init_gen_def)
  next
    case False
    show ?thesis
    proof (cases "loop_body eng 0 (init_gen n_prompt)")
      case (Break s')
      with guard False loop_body_first(2) [OF False unseen Break] show ?thesis
        by (simp add: gen_loop_unfold_Break)
    next
      case (Continue s')
      with guard False loop_body_first(1) [OF False unseen Continue] show ?thesis
        by (simp add: gen_loop_unfold_Continue gen_loop_ttft_kept)
    qed
  qed
qed

lemma loop_body_first_Break:
  "\<not> tok_eog (steps eng i) \<Longrightarrow> loop_body eng i s = Break s' \<Longrightarrow>
     output_str s' \<noteq> [] \<or> generated_tokens s' = generated_tokens s + 1"
  by (auto simp: loop_body_def Let_def split: if_splits)

lemma gen_loop_no_token:
  assumes "output_str (snd (gen_loop eng n_prompt 0 (init_gen n_prompt))) = []"
    and "generated_tokens (snd (gen_loop eng n_prompt 0 (init_gen n_prompt))) = 0"
  shows "tok_eog (steps eng 0)"
proof (rule ccontr)
  assume first: "\<not> tok_eog (steps eng 0)"
  have guard: "n_pos (init_gen n_prompt) + batch_n_tokens (init_gen n_prompt) < n_prompt + n_predict"
    by (simp add: init_gen_def n_predict_def max_tokens_def)
  have zero: "generated_tokens (init_gen n_prompt) = 0"
    by (simp add: init_gen_def)
  show False
  proof (cases "loop_body eng 0 (init_gen n_prompt)")
    case (Break s')
    from loop_body_first_Break [OF first Break] zero
    have "output_str s' \<noteq> [] \<or> generated_tokens s' = 1" by simp
    moreover have "gen_loop eng n_prompt 0 (init_gen n_prompt) = (Suc 0, s')"
      using guard Break by (rule gen_loop_unfold_Break)
    ultimately show False using assms by auto
  next
    case (Continue s')
    from loop_body_generated(1) [OF Continue] zero
    have "generated_tokens s' = 1" by simp
    moreover have "gen_loop eng n_prompt 0 (init_gen n_prompt) = gen_loop eng n_prompt (Suc 0) s'"
      using guard Continue by (rule gen_loop_unfold_Continue)
    moreover have "generated_tokens s' \<le> generated_tokens (snd (gen_loop eng n_prompt (Suc 0) s'))"
      by (rule gen_loop_generated_mono)
    ultimately show False using assms(2) by simp
  qed
qed

subsection \<open>runModel past the early returns\<close>

lemma runModel_reaches:
  assumes "reaches_generation eng prompt model_path template_type"
  shows "runModel eng prompt model_path template_type =
    Inr \<lparr>ret = result_string
            (ttft_ms (snd (gen_loop eng (n_prompt_of eng prompt template_type) 0
                (init_gen (n_prompt_of eng prompt template_type)))))
            (tokens_per_sec (n_prompt_of eng prompt template_type) (prefill_ms eng))
            (tokens_per_sec (generated_tokens (snd (gen_loop eng (n_prompt_of eng prompt template_type) 0
                (init_gen (n_prompt_of eng prompt template_type))))) (gen_ms eng))
            (gen_ms eng)
            (output_str (snd (gen_loop eng (n_prompt_of eng prompt template_type) 0
                (init_gen (n_prompt_of eng prompt template_type))))),
         live = [PromptBatch]\<rparr>"
proof -
  let ?n = "n_prompt_of eng prompt template_type"
  have n: "0 < ?n" "tokenize eng (format_prompt prompt template_type) = ?n"
    using assms by (simp_all add: reaches_generation_def n_prompt_of_def)
  have "generated_tokens (init_gen ?n) \<le> generated_tokens (snd (gen_loop eng ?n 0 (init_gen ?n)))"
    by (rule gen_loop_generated_mono)
  then have gen: "0 \<le> generated_tokens (snd (gen_loop eng ?n 0 (init_gen ?n)))"
    by (simp add: init_gen_def)
  have itps: "itps_of ?n (prefill_ms eng) = Inr (tokens_per_sec ?n (prefill_ms eng))"
    using n(1) by (simp add: itps_of_tokens_per_sec)
  show ?thesis
    using assms n itps otps_of_tokens_per_sec [OF gen, of "gen_ms eng"]
    by (simp add: runModel_def reaches_generation_def Let_def)
qed

lemma runModel_fatal:
  assumes "\<not> reaches_generation eng prompt model_path template_type"
  shows "\<exists>lv. runModel eng prompt model_path template_type = Inr \<lparr>ret = [], live = lv\<rparr>"
  using assms
  by (auto simp: runModel_def reaches_generation_def n_prompt_of_def Let_def)

lemma result_string_prefix: "take 8 (result_string ttft itps otps oet out) = ''TTFT_MS=''"
  by (simp add: result_string_def)

lemma result_string_nonempty: "result_string ttft itps otps oet out \<noteq> []"
  by (simp add: result_string_def)

subsection \<open>The loop from its initial state\<close>

lemma state_after_0: "state_after eng n_prompt 0 = init_gen n_prompt"
  by (simp add: state_after_def init_gen_def pieces_upto_def)

lemma pieces_upto_Suc: "pieces_upto eng (Suc k) = pieces_upto eng k @ piece_text (steps eng k)"
  by (simp add: pieces_upto_def)

lemma pieces_upto_no_newline:
  "\<forall>j<k. step_continues (steps eng j) \<Longrightarrow> CHR ''\<newline>'' \<notin> set (pieces_upto eng k)"
  by (induction k) (auto simp: pieces_upto_Suc step_continues_def pieces_upto_def)

lemma guard_state_after:
  "0 < n_prompt \<Longrightarrow> int k < n_prompt + 31 \<Longrightarrow>
   n_pos (state_after eng n_prompt k) + batch_n_tokens (state_after eng n_prompt k)
     < n_prompt + n_predict"
  by (simp add: state_after_def n_predict_def max_tokens_def)

lemma guard_state_after_stop:
  "0 < n_prompt \<Longrightarrow> int k = n_prompt + 31 \<Longrightarrow>
   \<not> n_pos (state_after eng n_prompt k) + batch_n_tokens (state_after eng n_prompt k)
     < n_prompt + n_predict"
  by (auto simp add: state_after_def n_predict_def max_tokens_def)

lemma loop_body_continues:
  assumes "step_continues (steps eng k)" and "\<forall>j<k. step_continues (steps eng j)"
  shows "loop_body eng k (state_after eng n_prompt k) = Continue (state_after eng n_prompt (Suc k))"
proof -
  have "CHR ''\<newline>'' \<notin> set (pieces_upto eng k)"
    using assms(2) by (rule pieces_upto_no_newline)
  with assms(1) show ?thesis
    by (cases k) (auto simp: loop_body_def Let_def state_after_def step_continues_def piece_text_def
        pieces_upto_Suc)
qed

lemma gen_loop_prefix:
  assumes "0 < n_prompt"
  shows "int k \<le> n_prompt + 31 \<Longrightarrow> \<forall>j<k. step_continues (steps eng j) \<Longrightarrow>
    gen_loop eng n_prompt 0 (init_gen n_prompt) = gen_loop eng n_prompt k (state_after eng n_prompt k)"
proof (induction k)
  case 0
  show ?case by (simp add: state_after_0)
next
  case (Suc k)
  have prior: "\<forall>j<k. step_continues (steps eng j)" and this_step: "step_continues (steps eng k)"
    using Suc.prems(2) by simp_all
  have guard: "n_pos (state_after eng n_prompt k) + batch_n_tokens (state_after eng n_prompt k)
      < n_prompt + n_predict"
    using assms Suc.prems(1) by (intro guard_state_after) simp_all
  have "gen_loop eng n_prompt 0 (init_gen n_prompt) = gen_loop eng n_prompt k (state_after eng n_prompt k)"
    using Suc.IH Suc.prems(1) prior by simp
  also have "\<dots> = gen_loop eng n_prompt (Suc k) (state_after eng n_prompt (Suc k))"
    using guard loop_body_continues [OF this_step prior, of n_prompt]
    by (rule gen_loop_unfold_Continue)
  finally show ?case .
qed

lemma gen_loop_stop_eog:
  assumes "0 < n_prompt" and "int k < n_prompt + 31"
    and "\<forall>j<k. step_continues (steps eng j)" and "tok_eog (steps eng k)"
  shows "gen_loop eng n_prompt 0 (init_gen n_prompt) = (Suc k, state_after eng n_prompt k)"
proof -
  have "gen_loop eng n_prompt 0 (init_gen n_prompt) = gen_loop eng n_prompt k (state_after eng n_prompt k)"
    using assms(1-3) by (intro gen_loop_prefix) simp_all
  also have "\<dots> = (Suc k, state_after eng n_prompt k)"
    using guard_state_after [OF assms(1,2), of eng] assms(4)
    by (intro gen_loop_unfold_Break) (simp_all add: loop_body_def)
  finally show ?thesis .
qed

lemma gen_loop_stop_newline:
  assumes "0 < n_prompt" and "int k < n_prompt + 31"
    and "\<forall>j<k. step_continues (steps eng j)"
    and "\<not> tok_eog (steps eng k)" and "CHR ''\<newline>'' \<in> set (piece_text (steps eng k))"
  shows "gen_loop eng n_prompt 0 (init_gen n_prompt) =
    (Suc k, (state_after eng n_prompt k)\<lparr>output_str := pieces_upto eng (Suc k),
        first_token_seen := True, ttft_ms := t_first_ms eng 0\<rparr>)"
proof -
  have pos: "0 < piece_n (steps eng k)"
    using assms(5) by (auto simp: piece_text_def split: if_splits)
  have "gen_loop eng n_prompt 0 (init_gen n_prompt) = gen_loop eng n_prompt k (state_after eng n_prompt k)"
    using assms(1-3) by (intro gen_loop_prefix) simp_all
  also have "\<dots> = (Suc k, (state_after eng n_prompt k)\<lparr>output_str := pieces_upto eng (Suc k),
        first_token_seen := True, ttft_ms := t_first_ms eng 0\<rparr>)"
    using guard_state_after [OF assms(1,2), of eng] assms(4,5) pos
    by (intro gen_loop_unfold_Break)
       (cases k; auto simp: loop_body_def Let_def state_after_def piece_text_def pieces_upto_Suc)+
  finally show ?thesis .
qed

lemma gen_loop_stop_decode:
  assumes "0 < n_prompt" and "int k < n_prompt + 31"
    and "\<forall>j<k. step_continues (steps eng j)"
    and "\<not> tok_eog (steps eng k)" and "CHR ''\<newline>'' \<notin> set (piece_text (steps eng k))"
    and "decode_rc (steps eng k) \<noteq> 0"
  shows "gen_loop eng n_prompt 0 (init_gen n_prompt) =
    (Suc k, (state_after eng n_prompt (Suc k))\<lparr>n_pos := int k\<rparr>)"
proof -
  have clean: "CHR ''\<newline>'' \<notin> set (pieces_upto eng k)"
    using assms(3) by (rule pieces_upto_no_newline)
  have "gen_loop eng n_prompt 0 (init_gen n_prompt) = gen_loop eng n_prompt k (state_after eng n_prompt k)"
    using assms(1-3) by (intro gen_loop_prefix) simp_all
  also have "\<dots> = (Suc k, (state_after eng n_prompt (Suc k))\<lparr>n_pos := int k\<rparr>)"
    using guard_state_after [OF assms(1,2), of eng] assms(4-6) clean
    by (intro gen_loop_unfold_Break)
       (cases k; auto simp: loop_body_def Let_def state_after_def piece_text_def pieces_upto_Suc)+
  finally show ?thesis .
qed

lemma gen_loop_stop_budget:
  assumes "0 < n_prompt" and "int k = n_prompt + 31"
    and "\<forall>j<k. step_continues (steps eng j)"
  shows "gen_loop eng n_prompt 0 (init_gen n_prompt) = (k, state_after eng n_prompt k)"
proof -
  have "gen_loop eng n_prompt 0 (init_gen n_prompt) = gen_loop eng n_prompt k (state_after eng n_prompt k)"
    using assms by (intro gen_loop_prefix) simp_all
  also have "\<dots> = (k, state_after eng n_prompt k)"
    using guard_state_after_stop [OF assms(1,2), of eng]
    by (rule gen_loop_unfold_exit)
  finally show ?thesis .
qed

subsection \<open>Evaluating concrete runs\<close>

lemmas engine_defs =
  demo_engine_def scripted_def token_step_def eog_step_def eog_engine_def

lemmas run_defs =
  runModel_def n_prompt_of_def reaches_generation_def itps_of_def otps_of_def c_div_def
  gen_loop.simps init_gen_def n_predict_def max_tokens_def loop_body_def Let_def
  result_string_def to_string_def digits.simps

section \<open>Properties\<close>

subsection \<open>Chat templates\<close>

text \<open>
  C6.  For each template type 0, 1, 2 and 3 the formatted prompt is the literal prefix of
  that layout, then the raw prompt unchanged, then the literal suffix of that layout:
  ChatML for 0, Gemma for 1, Llama 3 for 2 and Phi for 3.
\<close>

theorem format_prompt_layouts:
  "format_prompt prompt 0 =
     ''<|im_start|>user\<newline>'' @ prompt @ ''<|im_end|>\<newline><|im_start|>assistant\<newline>''
   \<and> format_prompt prompt 1 =
     ''<start_of_turn>user\<newline>'' @ prompt @ ''<end_of_turn>\<newline><start_of_turn>model\<newline>''
   \<and> format_prompt prompt 2 =
     ''<|begin_of_text|><|start_header_id|>user<|end_header_id|>\<newline>\<newline>'' @ prompt @
     ''<|eot_id|><|start_header_id|>assistant<|end_header_id|>\<newline>\<newline>''
   \<and> format_prompt prompt 3 =
     ''<|user|>\<newline>'' @ prompt @ ''<|end|>\<newline><|assistant|>\<newline>''"
  by (simp add: format_prompt_def)

text \<open>
  C7.  Every template type other than 0, 1, 2 and 3 formats the prompt as template type 0
  does.
\<close>

theorem format_prompt_fallback:
  "template_type \<notin> {0, 1, 2, 3} \<Longrightarrow> format_prompt prompt template_type = format_prompt prompt 0"
  by (simp add: format_prompt_def)

theorem format_prompt_fallback_witness:
  "(99::int) \<notin> {0, 1, 2, 3} \<and> (-1::int) \<notin> {0, 1, 2, 3}
   \<and> format_prompt ''milk, eggs'' 99 = format_prompt ''milk, eggs'' 0
   \<and> format_prompt ''milk, eggs'' (-1) = format_prompt ''milk, eggs'' 0"
  using format_prompt_fallback [of 99 "''milk, eggs''"]
        format_prompt_fallback [of "-1" "''milk, eggs''"]
  by simp

subsection \<open>Token budget and termination\<close>

text \<open>
  C1.  The loop is meant to stop after \<open>max_tokens = 32\<close> generated tokens.  Its guard
  compares \<open>n_pos + batch.n_tokens\<close> with \<open>n_prompt + 32\<close>, but \<open>n_pos\<close> starts at 0
  and is never advanced by the prompt, and the batch holds one token from the second
  iteration on: the guard allows \<open>n_prompt + 31\<close> iterations.  For a prompt of 12 tokens
  and an engine that never produces an end-of-generation token, a newline or a failure,
  43 iterations run, 43 tokens are counted and 43 fragments are returned.
\<close>

theorem token_budget_exceeded:
  "fst (gen_loop chatty_engine 12 0 (init_gen 12)) = 43
   \<and> generated_tokens (snd (gen_loop chatty_engine 12 0 (init_gen 12))) = 43
   \<and> \<not> generated_tokens (snd (gen_loop chatty_engine 12 0 (init_gen 12))) \<le> max_tokens
   \<and> runModel chatty_engine ''milk'' ''model.gguf'' 0 =
       Inr \<lparr>ret = ''TTFT_MS=7;ITPS=2400;OTPS=14333;OET_MS=3|aaaaaaaaaaaaaaaaaaaaaaaaaaaaaaaaaaaaaaaaaaa'',
            live = [PromptBatch]\<rparr>"
  by (simp add: engine_defs chatty_engine_def run_defs)

text \<open>
  C10.  The loop terminates (the termination proof of \<open>gen_loop\<close> above), and from
  the initial state it enters at most \<open>n_prompt + 31\<close> iterations; every iteration
  either breaks or advances \<open>n_pos\<close> by exactly 1; and runModel returns a result for
  every engine.
\<close>

theorem gen_loop_bounded:
  "(0 < n_prompt \<longrightarrow> fst (gen_loop eng n_prompt 0 (init_gen n_prompt)) \<le> nat (n_prompt + 31))
   \<and> ((\<exists>s'. loop_body eng i s = Break s')
        \<or> (\<exists>s'. loop_body eng i s = Continue s' \<and> n_pos s' = n_pos s + 1))
   \<and> (\<exists>r. runModel eng prompt model_path template_type = Inr r)"
proof -
  have a: "fst (gen_loop eng n_prompt 0 (init_gen n_prompt)) \<le> nat (n_prompt + 31)" if "0 < n_prompt"
    using gen_loop_iterations [of eng n_prompt 0 "init_gen n_prompt"] that
    by (simp add: init_gen_def n_predict_def max_tokens_def nat_add_distrib split: if_splits)
  have b: "(\<exists>s'. loop_body eng i s = Break s')
        \<or> (\<exists>s'. loop_body eng i s = Continue s' \<and> n_pos s' = n_pos s + 1)"
    by (cases "loop_body eng i s") (simp_all add: loop_body_Continue)
  have c: "\<exists>r. runModel eng prompt model_path template_type = Inr r"
  proof (cases "reaches_generation eng prompt model_path template_type")
    case True
    then show ?thesis by (simp add: runModel_reaches)
  next
    case False
    from runModel_fatal [OF False] show ?thesis by auto
  qed
  from a b c show ?thesis by blast
qed

theorem gen_loop_bounded_witness:
  "(0::int) < 12 \<and> fst (gen_loop chatty_engine 12 0 (init_gen 12)) \<le> 43
   \<and> (\<exists>s'. loop_body chatty_engine 0 (init_gen 12) = Continue s' \<and> n_pos s' = 1)
   \<and> (\<exists>s'. loop_body eog_engine 0 (init_gen 12) = Break s')"
proof -
  have c: "\<exists>s'. loop_body chatty_engine 0 (init_gen 12) = Continue s'"
    by (simp add: engine_defs chatty_engine_def loop_body_def Let_def init_gen_def)
  have e: "\<exists>s'. loop_body eog_engine 0 (init_gen 12) = Break s'"
    by (simp add: engine_defs chatty_engine_def loop_body_def Let_def init_gen_def)
  have z: "n_pos (init_gen 12) = 0"
    by (simp add: init_gen_def)
  show ?thesis
    using gen_loop_bounded [of 12 chatty_engine 0 "init_gen 12" "''milk''" "''model.gguf''" 0] c e
    by (auto simp: z)
qed

subsection \<open>Release of the handles\<close>

text \<open>
  C2.  Every handle obtained should be released on every return.  The cleanup of lines
  252-255 is reached only at the end of the function: the early return after a failed
  context creation leaves the model live, the one after a failed tokenization leaves the
  context and the model live, and the one after a failed prefill leaves the prompt batch,
  the context and the model live.
\<close>

theorem early_returns_leak:
  "runModel no_context_engine ''milk'' ''model.gguf'' 0 =
     Inr \<lparr>ret = [], live = [Model]\<rparr>
   \<and> runModel no_tokens_engine ''milk'' ''model.gguf'' 0 =
     Inr \<lparr>ret = [], live = [Context, Model]\<rparr>
   \<and> runModel no_prefill_engine ''milk'' ''model.gguf'' 0 =
     Inr \<lparr>ret = [], live = [PromptBatch, Context, Model]\<rparr>"
  by (simp add: engine_defs no_context_engine_def no_tokens_engine_def no_prefill_engine_def runModel_def)

subsection \<open>The newline rule\<close>

text \<open>
  C3, as stated, does not hold: the newline that stops the generation stays in the
  returned text.  Tokens decoding to "peanut, milk, wheat" and a newline give a raw output
  that ends with the newline.
\<close>

theorem newline_kept_in_output:
  "output_str (snd (gen_loop peanut_engine 12 0 (init_gen 12))) = ''peanut, milk, wheat\<newline>''
   \<and> output_str (snd (gen_loop peanut_engine 12 0 (init_gen 12))) \<noteq> ''peanut, milk, wheat''
   \<and> runModel peanut_engine ''peanuts, milk, wheat flour'' ''model.gguf'' 0 =
       Inr \<lparr>ret = ''TTFT_MS=7;ITPS=2400;OTPS=1000;OET_MS=3|peanut, milk, wheat\<newline>'',
            live = [PromptBatch]\<rparr>"
  by (simp add: engine_defs peanut_engine_def run_defs)

text \<open>
  C3, amended.  When the fragment of iteration \<open>k\<close> brings the first newline into the
  accumulated output, the loop stops in that iteration (\<open>k + 1\<close> iterations are entered
  and no later answer of the engine is used), and the returned raw output is the text
  accumulated so far followed by that whole fragment, the newline included.
\<close>

theorem newline_stops_generation:
  assumes "reaches_generation eng prompt model_path template_type"
    and "int k < n_prompt_of eng prompt template_type + 31"
    and "\<forall>j<k. step_continues (steps eng j)"
    and "\<not> tok_eog (steps eng k)"
    and "CHR ''\<newline>'' \<in> set (piece_text (steps eng k))"
  shows "fst (gen_loop eng (n_prompt_of eng prompt template_type) 0
             (init_gen (n_prompt_of eng prompt template_type))) = Suc k
    \<and> runModel eng prompt model_path template_type =
       Inr \<lparr>ret = result_string (t_first_ms eng 0)
                   (tokens_per_sec (n_prompt_of eng prompt template_type) (prefill_ms eng))
                   (tokens_per_sec (int k) (gen_ms eng)) (gen_ms eng)
                   (pieces_upto eng k @ piece_text (steps eng k)),
            live = [PromptBatch]\<rparr>"
proof -
  let ?n = "n_prompt_of eng prompt template_type"
  have n: "0 < ?n"
    using assms(1) by (simp add: reaches_generation_def)
  have loop: "gen_loop eng ?n 0 (init_gen ?n) =
      (Suc k, (state_after eng ?n k)\<lparr>output_str := pieces_upto eng (Suc k),
          first_token_seen := True, ttft_ms := t_first_ms eng 0\<rparr>)"
    using n assms(2-5) by (rule gen_loop_stop_newline)
  show ?thesis
    by (simp add: runModel_reaches [OF assms(1)] loop state_after_def pieces_upto_Suc)
qed

theorem newline_stops_generation_witness:
  "reaches_generation peanut_engine ''peanuts, milk, wheat flour'' ''model.gguf'' 0
   \<and> int 3 < n_prompt_of peanut_engine ''peanuts, milk, wheat flour'' 0 + 31
   \<and> step_continues (steps peanut_engine 0)
   \<and> step_continues (steps peanut_engine 1)
   \<and> step_continues (steps peanut_engine 2)
   \<and> \<not> tok_eog (steps peanut_engine 3)
   \<and> CHR ''\<newline>'' \<in> set (piece_text (steps peanut_engine 3))
   \<and> fst (gen_loop peanut_engine 12 0 (init_gen 12)) = 4
   \<and> runModel peanut_engine ''peanuts, milk, wheat flour'' ''model.gguf'' 0 =
       Inr \<lparr>ret = result_string 7 2400 1000 3 ''peanut, milk, wheat\<newline>'', live = [PromptBatch]\<rparr>"
proof -
  have h1: "reaches_generation peanut_engine ''peanuts, milk, wheat flour'' ''model.gguf'' 0"
    by (simp add: engine_defs peanut_engine_def reaches_generation_def n_prompt_of_def)
  have h2: "int 3 < n_prompt_of peanut_engine ''peanuts, milk, wheat flour'' 0 + 31"
    by (simp add: engine_defs peanut_engine_def n_prompt_of_def)
  have h3: "\<forall>j<3. step_continues (steps peanut_engine j)"
    by (simp add: engine_defs peanut_engine_def step_continues_def piece_text_def numeral_3_eq_3 less_Suc_eq)
  have h4: "\<not> tok_eog (steps peanut_engine 3)"
    by (simp add: engine_defs peanut_engine_def)
  have h5: "CHR ''\<newline>'' \<in> set (piece_text (steps peanut_engine 3))"
    by (simp add: engine_defs peanut_engine_def piece_text_def)
  have n: "n_prompt_of peanut_engine ''peanuts, milk, wheat flour'' 0 = 12"
    by (simp add: engine_defs peanut_engine_def n_prompt_of_def)
  have pieces: "pieces_upto peanut_engine 3 @ piece_text (steps peanut_engine 3)
      = ''peanut, milk, wheat\<newline>''"
    by (simp add: engine_defs peanut_engine_def pieces_upto_def piece_text_def numeral_3_eq_3)
  have m: "prefill_ms peanut_engine = 5" "gen_ms peanut_engine = 3" "t_first_ms peanut_engine 0 = 7"
    by (simp_all add: engine_defs peanut_engine_def)
  have h3': "step_continues (steps peanut_engine 0)" "step_continues (steps peanut_engine 1)"
      "step_continues (steps peanut_engine 2)"
    using h3 by simp_all
  show ?thesis
    using newline_stops_generation [OF h1 h2 h3 h4 h5] h1 h2 h3' h4 h5
    by (simp add: n pieces m tokens_per_sec_def)
qed

subsection \<open>Empty results and partial results\<close>

text \<open>
  C4, as stated, does not hold: a run whose first sampled token is end-of-generation
  returns the metrics header and the separator with an empty text after it, not the empty
  string that a failed model load returns.  (The boundary function of lines 273-307 hands
  the string of runModel to the caller as it is.)
\<close>

theorem empty_output_is_not_empty_result:
  "tok_eog (steps eog_engine 0)
   \<and> runModel eog_engine ''milk'' ''model.gguf'' 0 =
       Inr \<lparr>ret = ''TTFT_MS=-1;ITPS=2400;OTPS=0;OET_MS=3|'', live = [PromptBatch]\<rparr>
   \<and> runModel no_model_engine ''milk'' ''model.gguf'' 0 =
       Inr \<lparr>ret = [], live = []\<rparr>"
  by (simp add: engine_defs no_model_engine_def run_defs)

text \<open>
  C4, amended.  runModel returns the empty string exactly when one of the four fatal
  errors occurred (model load, context creation, tokenization, prefill); every run that
  reaches the generation loop, also one that generates no text, returns a string that
  starts with \<open>TTFT_MS=\<close>.  The empty string does not tell the four failures apart, but
  it does tell a failure from an empty output.
\<close>

theorem empty_result_iff_fatal:
  "\<exists>r. runModel eng prompt model_path template_type = Inr r
     \<and> (ret r = [] \<longleftrightarrow> \<not> reaches_generation eng prompt model_path template_type)
     \<and> (reaches_generation eng prompt model_path template_type \<longrightarrow> take 8 (ret r) = ''TTFT_MS='')"
proof (cases "reaches_generation eng prompt model_path template_type")
  case True
  show ?thesis
    using True
    by (simp add: runModel_reaches [OF True] result_string_prefix result_string_nonempty)
next
  case False
  from runModel_fatal [OF False] obtain lv where
    "runModel eng prompt model_path template_type = Inr \<lparr>ret = [], live = lv\<rparr>" ..
  with False show ?thesis by simp
qed

theorem empty_result_iff_fatal_witness:
  "reaches_generation eog_engine ''milk'' ''model.gguf'' 0
   \<and> \<not> reaches_generation no_model_engine ''milk'' ''model.gguf'' 0
   \<and> (\<exists>r. runModel eog_engine ''milk'' ''model.gguf'' 0 = Inr r \<and> ret r \<noteq> [])
   \<and> (\<exists>r. runModel no_model_engine ''milk'' ''model.gguf'' 0 = Inr r
          \<and> ret r = [])"
proof -
  have h1: "reaches_generation eog_engine ''milk'' ''model.gguf'' 0"
    by (simp add: engine_defs no_model_engine_def reaches_generation_def n_prompt_of_def)
  have h2: "\<not> reaches_generation no_model_engine
      ''milk'' ''model.gguf'' 0"
    by (simp add: engine_defs no_model_engine_def reaches_generation_def n_prompt_of_def)
  show ?thesis
    using empty_result_iff_fatal [of eog_engine "''milk''" "''model.gguf''" 0]
      empty_result_iff_fatal [of no_model_engine
        "''milk''" "''model.gguf''" 0] h1 h2
    by auto
qed

text \<open>
  C5.  When the forward pass of iteration \<open>k\<close> fails, the run still returns a
  non-empty string: the metrics header, the separator, and the text of all \<open>k + 1\<close>
  tokens sampled so far.  The header prints the time read at the first token, the input
  rate \<open>n_prompt * 1000 div prefill_ms\<close>, the output rate \<open>(k + 1) * 1000 div gen_ms\<close>
  and the elapsed time \<open>gen_ms\<close>; a rate whose duration is not positive is printed as
  -1.  None of the four fields is printed as -1 when its measured duration is positive
  (for the time to first token: when the reading is not negative).
\<close>

theorem decode_failure_keeps_output:
  assumes "reaches_generation eng prompt model_path template_type"
    and "int k < n_prompt_of eng prompt template_type + 31"
    and "\<forall>j<k. step_continues (steps eng j)"
    and "\<not> tok_eog (steps eng k)"
    and "CHR ''\<newline>'' \<notin> set (piece_text (steps eng k))"
    and "decode_rc (steps eng k) \<noteq> 0"
  shows "\<exists>r. runModel eng prompt model_path template_type = Inr r
    \<and> ret r \<noteq> []
    \<and> ret r =
        ''TTFT_MS='' @ to_string (t_first_ms eng 0) @
        '';ITPS='' @ to_string (if 0 < prefill_ms eng
            then n_prompt_of eng prompt template_type * 1000 div prefill_ms eng else - 1) @
        '';OTPS='' @ to_string (if 0 < gen_ms eng
            then int (Suc k) * 1000 div gen_ms eng else - 1) @
        '';OET_MS='' @ to_string (gen_ms eng) @
        ''|'' @ concat (map (\<lambda>j. piece_text (steps eng j)) [0..<Suc k])
    \<and> (0 \<le> t_first_ms eng 0 \<longrightarrow> to_string (t_first_ms eng 0) \<noteq> ''-1'')
    \<and> (0 < prefill_ms eng \<longrightarrow>
          to_string (n_prompt_of eng prompt template_type * 1000 div prefill_ms eng) \<noteq> ''-1'')
    \<and> (0 < gen_ms eng \<longrightarrow>
          to_string (int (Suc k) * 1000 div gen_ms eng) \<noteq> ''-1''
          \<and> to_string (gen_ms eng) \<noteq> ''-1'')"
proof -
  let ?n = "n_prompt_of eng prompt template_type"
  have n: "0 < ?n"
    using assms(1) by (simp add: reaches_generation_def)
  have loop: "gen_loop eng ?n 0 (init_gen ?n) = (Suc k, (state_after eng ?n (Suc k))\<lparr>n_pos := int k\<rparr>)"
    using n assms(2-6) by (rule gen_loop_stop_decode)
  have run: "runModel eng prompt model_path template_type =
      Inr \<lparr>ret = result_string (t_first_ms eng 0) (tokens_per_sec ?n (prefill_ms eng))
                   (tokens_per_sec (int (Suc k)) (gen_ms eng)) (gen_ms eng) (pieces_upto eng (Suc k)),
           live = [PromptBatch]\<rparr>"
    by (simp add: runModel_reaches [OF assms(1)] loop state_after_def)
  have itps: "to_string (?n * 1000 div prefill_ms eng) \<noteq> ''-1''" if "0 < prefill_ms eng"
    using n that by (intro to_string_nonneg_no_sentinel) (simp add: pos_imp_zdiv_nonneg_iff)
  have otps: "to_string (int (Suc k) * 1000 div gen_ms eng) \<noteq> ''-1''" if "0 < gen_ms eng"
    using that by (intro to_string_nonneg_no_sentinel) (simp add: pos_imp_zdiv_nonneg_iff)
  have oet: "to_string (gen_ms eng) \<noteq> ''-1''" if "0 < gen_ms eng"
    using that by (intro to_string_nonneg_no_sentinel) simp
  have ttft: "to_string (t_first_ms eng 0) \<noteq> ''-1''" if "0 \<le> t_first_ms eng 0"
    using that by (rule to_string_nonneg_no_sentinel)
  have str: "result_string (t_first_ms eng 0) (tokens_per_sec ?n (prefill_ms eng))
                   (tokens_per_sec (int (Suc k)) (gen_ms eng)) (gen_ms eng) (pieces_upto eng (Suc k)) =
        ''TTFT_MS='' @ to_string (t_first_ms eng 0) @
        '';ITPS='' @ to_string (if 0 < prefill_ms eng then ?n * 1000 div prefill_ms eng else - 1) @
        '';OTPS='' @ to_string (if 0 < gen_ms eng then int (Suc k) * 1000 div gen_ms eng else - 1) @
        '';OET_MS='' @ to_string (gen_ms eng) @
        ''|'' @ concat (map (\<lambda>j. piece_text (steps eng j)) [0..<Suc k])"
    unfolding result_string_def tokens_per_sec_def pieces_upto_def by (rule refl)
  show ?thesis
    unfolding run using itps otps oet ttft
    by (simp only: str run_result.simps sum.inject simp_thms ex_simps) (simp add: result_string_nonempty [unfolded result_string_def])
qed

theorem decode_failure_keeps_output_witness:
  "reaches_generation failing_engine ''peanuts, milk, wheat flour'' ''model.gguf'' 0
   \<and> int 2 < n_prompt_of failing_engine ''peanuts, milk, wheat flour'' 0 + 31
   \<and> step_continues (steps failing_engine 0)
   \<and> step_continues (steps failing_engine 1)
   \<and> \<not> tok_eog (steps failing_engine 2)
   \<and> CHR ''\<newline>'' \<notin> set (piece_text (steps failing_engine 2))
   \<and> decode_rc (steps failing_engine 2) \<noteq> 0
   \<and> 0 < prefill_ms failing_engine \<and> 0 < gen_ms failing_engine
   \<and> (\<exists>r. runModel failing_engine ''peanuts, milk, wheat flour'' ''model.gguf'' 0 = Inr r
        \<and> ret r = ''TTFT_MS=7;ITPS=2400;OTPS=1000;OET_MS=3|peanut, milk, wheat'')"
proof -
  have h1: "reaches_generation failing_engine ''peanuts, milk, wheat flour'' ''model.gguf'' 0"
    by (simp add: engine_defs failing_engine_def reaches_generation_def n_prompt_of_def)
  have h2: "int 2 < n_prompt_of failing_engine ''peanuts, milk, wheat flour'' 0 + 31"
    by (simp add: engine_defs failing_engine_def n_prompt_of_def)
  have h3: "\<forall>j<2. step_continues (steps failing_engine j)"
    by (simp add: engine_defs failing_engine_def step_continues_def piece_text_def numeral_2_eq_2 less_Suc_eq)
  have h4: "\<not> tok_eog (steps failing_engine 2)"
    by (simp add: engine_defs failing_engine_def)
  have h5: "CHR ''\<newline>'' \<notin> set (piece_text (steps failing_engine 2))"
    by (simp add: engine_defs failing_engine_def piece_text_def)
  have h6: "decode_rc (steps failing_engine 2) \<noteq> 0"
    by (simp add: engine_defs failing_engine_def)
  have h3': "step_continues (steps failing_engine 0)" "step_continues (steps failing_engine 1)"
    using h3 by simp_all
  have n: "n_prompt_of failing_engine ''peanuts, milk, wheat flour'' 0 = 12"
    by (simp add: engine_defs failing_engine_def n_prompt_of_def)
  have pieces: "concat (map (\<lambda>j. piece_text (steps failing_engine j)) [0..<Suc 2]) = ''peanut, milk, wheat''"
    by (simp add: engine_defs failing_engine_def piece_text_def numeral_2_eq_2)
  have m: "prefill_ms failing_engine = 5" "gen_ms failing_engine = 3" "t_first_ms failing_engine 0 = 7"
    by (simp_all add: engine_defs failing_engine_def)
  have d: "to_string 7 = ''7''" "to_string 2400 = ''2400''" "to_string 1000 = ''1000''"
      "to_string 3 = ''3''"
    by (simp_all add: to_string_def digits.simps)
  from decode_failure_keeps_output [OF h1 h2 h3 h4 h5 h6]
  obtain r where r: "runModel failing_engine ''peanuts, milk, wheat flour'' ''model.gguf'' 0 = Inr r"
    and s: "ret r =
        ''TTFT_MS='' @ to_string (t_first_ms failing_engine 0) @
        '';ITPS='' @ to_string (if 0 < prefill_ms failing_engine
            then n_prompt_of failing_engine ''peanuts, milk, wheat flour'' 0 * 1000
                 div prefill_ms failing_engine else - 1) @
        '';OTPS='' @ to_string (if 0 < gen_ms failing_engine
            then int (Suc 2) * 1000 div gen_ms failing_engine else - 1) @
        '';OET_MS='' @ to_string (gen_ms failing_engine) @
        ''|'' @ concat (map (\<lambda>j. piece_text (steps failing_engine j)) [0..<Suc 2])"
    by blast
  have "ret r = ''TTFT_MS=7;ITPS=2400;OTPS=1000;OET_MS=3|peanut, milk, wheat''"
    unfolding s pieces by (simp add: n m d)
  with r h1 h2 h3' h4 h5 h6 show ?thesis
    by (simp add: m)
qed

subsection \<open>Metrics\<close>

text \<open>
  C8.  In every run that reaches the result assembly, with \<open>s\<close> the state in which
  the loop ends: the returned string prints \<open>ttft_ms s\<close> first; if the accumulated
  output is empty and no token was generated (\<open>generated_tokens s = 0\<close>), the time to
  first token is the sentinel -1; conversely, it differs from -1 only when the first
  sampled token is not end-of-generation, and it is then the time read in iteration 0,
  when that token was sampled, whatever happens later.
\<close>

theorem ttft_sentinel_without_token:
  assumes "reaches_generation eng prompt model_path template_type"
    and "n = n_prompt_of eng prompt template_type"
    and "s = snd (gen_loop eng n 0 (init_gen n))"
  shows "runModel eng prompt model_path template_type =
       Inr \<lparr>ret = ''TTFT_MS='' @ to_string (ttft_ms s) @
                  '';ITPS='' @ to_string (if 0 < prefill_ms eng
                      then n * 1000 div prefill_ms eng else - 1) @
                  '';OTPS='' @ to_string (if 0 < gen_ms eng
                      then generated_tokens s * 1000 div gen_ms eng else - 1) @
                  '';OET_MS='' @ to_string (gen_ms eng) @
                  ''|'' @ output_str s,
            live = [PromptBatch]\<rparr>
     \<and> (output_str s = [] \<and> generated_tokens s = 0 \<longrightarrow> ttft_ms s = - 1)
     \<and> (ttft_ms s \<noteq> - 1 \<longrightarrow> \<not> tok_eog (steps eng 0))
     \<and> (\<not> tok_eog (steps eng 0) \<longrightarrow> ttft_ms s = t_first_ms eng 0)"
proof -
  have first: "ttft_ms s = (if tok_eog (steps eng 0) then - 1 else t_first_ms eng 0)"
    unfolding assms(3) by (rule gen_loop_ttft_first)
  have none: "ttft_ms s = - 1" if "output_str s = []" and "generated_tokens s = 0"
    using gen_loop_no_token [of eng n] that first unfolding assms(3) by simp
  have run: "runModel eng prompt model_path template_type =
       Inr \<lparr>ret = ''TTFT_MS='' @ to_string (ttft_ms s) @
                  '';ITPS='' @ to_string (if 0 < prefill_ms eng
                      then n * 1000 div prefill_ms eng else - 1) @
                  '';OTPS='' @ to_string (if 0 < gen_ms eng
                      then generated_tokens s * 1000 div gen_ms eng else - 1) @
                  '';OET_MS='' @ to_string (gen_ms eng) @
                  ''|'' @ output_str s,
            live = [PromptBatch]\<rparr>"
    unfolding runModel_reaches [OF assms(1)] result_string_def tokens_per_sec_def assms(2,3)
    by (rule refl)
  from run none first show ?thesis by simp
qed

theorem ttft_sentinel_without_token_witness:
  "reaches_generation eog_engine ''milk'' ''model.gguf'' 0
   \<and> output_str (snd (gen_loop eog_engine 12 0 (init_gen 12))) = []
   \<and> generated_tokens (snd (gen_loop eog_engine 12 0 (init_gen 12))) = 0
   \<and> ttft_ms (snd (gen_loop eog_engine 12 0 (init_gen 12))) = - 1
   \<and> runModel eog_engine ''milk'' ''model.gguf'' 0 =
       Inr \<lparr>ret = ''TTFT_MS=-1;ITPS=2400;OTPS=0;OET_MS=3|'', live = [PromptBatch]\<rparr>
   \<and> reaches_generation peanut_engine ''milk'' ''model.gguf'' 0
   \<and> \<not> tok_eog (steps peanut_engine 0)
   \<and> ttft_ms (snd (gen_loop peanut_engine 12 0 (init_gen 12))) = 7"
proof -
  have h1: "reaches_generation eog_engine ''milk'' ''model.gguf'' 0"
    by (simp add: engine_defs reaches_generation_def n_prompt_of_def)
  have n1: "12 = n_prompt_of eog_engine ''milk'' 0"
    by (simp add: engine_defs n_prompt_of_def)
  have h2: "reaches_generation peanut_engine ''milk'' ''model.gguf'' 0"
    by (simp add: engine_defs peanut_engine_def reaches_generation_def n_prompt_of_def)
  have n2: "12 = n_prompt_of peanut_engine ''milk'' 0"
    by (simp add: engine_defs peanut_engine_def n_prompt_of_def)
  have e: "output_str (snd (gen_loop eog_engine 12 0 (init_gen 12))) = []"
      "generated_tokens (snd (gen_loop eog_engine 12 0 (init_gen 12))) = 0"
    by (simp_all add: engine_defs gen_loop.simps loop_body_def init_gen_def n_predict_def
        max_tokens_def)
  have p: "\<not> tok_eog (steps peanut_engine 0)" "t_first_ms peanut_engine 0 = 7"
    by (simp_all add: engine_defs peanut_engine_def)
  have m: "prefill_ms eog_engine = 5" "gen_ms eog_engine = 3"
    by (simp_all add: engine_defs)
  have d: "to_string (- 1) = ''-1''" "to_string 2400 = ''2400''" "to_string 0 = ''0''"
      "to_string 3 = ''3''"
    by (simp_all add: to_string_def digits.simps)
  note a = ttft_sentinel_without_token [OF h1 n1 refl]
  note b = ttft_sentinel_without_token [OF h2 n2 refl]
  from a e have t: "ttft_ms (snd (gen_loop eog_engine 12 0 (init_gen 12))) = - 1"
    by blast
  from a have "runModel eog_engine ''milk'' ''model.gguf'' 0 =
       Inr \<lparr>ret = ''TTFT_MS=-1;ITPS=2400;OTPS=0;OET_MS=3|'', live = [PromptBatch]\<rparr>"
    by (simp add: t e m d)
  moreover from b p have "ttft_ms (snd (gen_loop peanut_engine 12 0 (init_gen 12))) = 7"
    by simp
  ultimately show ?thesis
    using h1 h2 e t p by simp
qed

text \<open>
  Both conditions are needed.  A first token that is not end-of-generation and has no
  renderable text is counted and sets the time to first token, but leaves the output
  empty.
\<close>

lemma silent_token_sets_ttft:
  "output_str (snd (gen_loop silent_engine 12 0 (init_gen 12))) = []
   \<and> generated_tokens (snd (gen_loop silent_engine 12 0 (init_gen 12))) = 1
   \<and> ttft_ms (snd (gen_loop silent_engine 12 0 (init_gen 12))) = 7
   \<and> runModel silent_engine ''milk'' ''model.gguf'' 0 =
       Inr \<lparr>ret = ''TTFT_MS=7;ITPS=2400;OTPS=333;OET_MS=3|'', live = [PromptBatch]\<rparr>"
  by (simp add: engine_defs silent_engine_def silent_step_def run_defs)

text \<open>
  C9.  A prefill duration of 0 ms leaves the input rate at the sentinel -1 and divides
  nothing; for a positive duration the input rate is \<open>n_prompt * 1000 div prefill\<close>
  (the prompt length is positive at line 171); no run divides by zero, and the rate so
  computed is the one the returned string reports.
\<close>

theorem itps_division_guard:
  "(prefill = 0 \<longrightarrow> itps_of n_prompt prefill = Inr (- 1))
   \<and> (0 < prefill \<longrightarrow> 0 < n_prompt \<longrightarrow> itps_of n_prompt prefill = Inr (n_prompt * 1000 div prefill))
   \<and> itps_of n_prompt prefill \<noteq> Inl DivideByZero
   \<and> runModel eng prompt model_path template_type \<noteq> Inl DivideByZero
   \<and> (reaches_generation eng prompt model_path template_type \<longrightarrow>
        (\<exists>ttft otps oet out.
           runModel eng prompt model_path template_type =
             Inr \<lparr>ret = result_string ttft
                          (if 0 < prefill_ms eng
                           then n_prompt_of eng prompt template_type * 1000 div prefill_ms eng
                           else - 1)
                          otps oet out,
                  live = [PromptBatch]\<rparr>))"
proof -
  have a: "prefill = 0 \<longrightarrow> itps_of n_prompt prefill = Inr (- 1)"
    by (simp add: itps_of_def)
  have b: "0 < prefill \<longrightarrow> 0 < n_prompt \<longrightarrow> itps_of n_prompt prefill = Inr (n_prompt * 1000 div prefill)"
    by (simp add: itps_of_def c_div_nonneg)
  have c: "itps_of n_prompt prefill \<noteq> Inl DivideByZero"
    by (simp add: itps_of_def c_div_def)
  have d: "runModel eng prompt model_path template_type \<noteq> Inl DivideByZero"
  proof (cases "reaches_generation eng prompt model_path template_type")
    case True
    then show ?thesis by (simp add: runModel_reaches)
  next
    case False
    from runModel_fatal [OF False] show ?thesis by auto
  qed
  have e: "reaches_generation eng prompt model_path template_type \<longrightarrow>
        (\<exists>ttft otps oet out.
           runModel eng prompt model_path template_type =
             Inr \<lparr>ret = result_string ttft
                          (if 0 < prefill_ms eng
                           then n_prompt_of eng prompt template_type * 1000 div prefill_ms eng
                           else - 1)
                          otps oet out,
                  live = [PromptBatch]\<rparr>)"
    by (auto simp: runModel_reaches tokens_per_sec_def)
  from a b c d e show ?thesis by blast
qed

theorem itps_division_guard_witness:
  "itps_of 12 0 = Inr (- 1)
   \<and> (0::int) < 5 \<and> (0::int) < 12 \<and> itps_of 12 5 = Inr 2400
   \<and> reaches_generation (eog_engine\<lparr>prefill_ms := 0\<rparr>) ''milk'' ''model.gguf'' 0
   \<and> (\<exists>ttft otps oet out.
        runModel (eog_engine\<lparr>prefill_ms := 0\<rparr>) ''milk'' ''model.gguf'' 0 =
          Inr \<lparr>ret = result_string ttft (- 1) otps oet out, live = [PromptBatch]\<rparr>)"
proof -
  have h: "reaches_generation (eog_engine\<lparr>prefill_ms := 0\<rparr>) ''milk'' ''model.gguf'' 0"
    by (simp add: engine_defs reaches_generation_def n_prompt_of_def)
  have m: "prefill_ms (eog_engine\<lparr>prefill_ms := 0\<rparr>) = 0"
    by simp
  show ?thesis
    using itps_division_guard [of 0 12 eog_engine "''milk''" "''model.gguf''" 0]
      itps_division_guard [of 5 12 "eog_engine\<lparr>prefill_ms := 0\<rparr>" "''milk''" "''model.gguf''" 0] h
    by (simp add: m)
qed

end
